theory Spec2Isabelle
  imports Complex_Main
begin

section \<open>API monitoring backend: data model\<close>

text \<open>
  The service (\<^verbatim>\<open>src/main.py\<close>, \<^verbatim>\<open>src/schemas.py\<close>) keeps three MongoDB
  collections, \<^verbatim>\<open>project\<close>, \<^verbatim>\<open>apikey\<close> and \<^verbatim>\<open>apievent\<close>. A collection is a list of
  documents in insertion order. A store identifier (bson \<^verbatim>\<open>ObjectId\<close>) is carried as its
  24-digit lower-case hexadecimal rendering, so \<^verbatim>\<open>str(doc["_id"])\<close> is the identity.
  A timestamp is the number of milliseconds since the epoch (UTC), which is what the
  store keeps. Python's \<^verbatim>\<open>float\<close> is idealised as \<open>real\<close>: rounding is not modelled.
  A string is a list of characters with code points below 256, which is exact for header
  values.
\<close>

type_synonym objectid = string
type_synonym datetime = int

datatype error =
    HTTPException nat string
  | InvalidId
  | ValidationError

subsection \<open>Request bodies (\<^verbatim>\<open>main.py\<close>)\<close>

record CreateProject =
  cp_name :: string
  cp_slug :: string
  cp_description :: "string option"

record CreateApiKey =
  ck_project_id :: string
  ck_name :: string

record IngestEvent =
  ie_project_slug :: string
  ie_api_key :: "string option"
  ie_method :: string
  ie_path :: string
  ie_status :: int
  ie_latency_ms :: real
  ie_ip :: "string option"
  ie_user_agent :: "string option"
  ie_request_size :: "int option"
  ie_response_size :: "int option"
  ie_error_message :: "string option"

subsection \<open>Schemas (\<^verbatim>\<open>schemas.py\<close>) and stored documents\<close>

record Project =
  pr_name :: string
  pr_slug :: string
  pr_description :: "string option"

record Apikey =
  ak_project_id :: string
  ak_name :: string
  ak_key :: string
  ak_active :: bool

record Apievent =
  ev_project_id :: string
  ev_api_key_id :: "string option"
  ev_method :: string
  ev_path :: string
  ev_status :: int
  ev_latency_ms :: real
  ev_ip :: "string option"
  ev_user_agent :: "string option"
  ev_request_size :: "int option"
  ev_response_size :: "int option"
  ev_error_message :: "string option"

text \<open>A stored document is the schema's fields plus the store's \<^verbatim>\<open>_id\<close>; an event
  document also carries \<^verbatim>\<open>created_at\<close>, the field the hourly query filters on.\<close>

record project_doc = Project +
  pr_oid :: objectid

record apikey_doc = Apikey +
  ak_oid :: objectid

record apievent_doc = Apievent +
  ev_oid :: objectid
  created_at :: datetime

record store =
  project :: "project_doc list"
  apikey :: "apikey_doc list"
  apievent :: "apievent_doc list"

text \<open>The field constraints of \<^verbatim>\<open>Apievent\<close>: the method literal, \<^verbatim>\<open>ge\<close>/\<^verbatim>\<open>le\<close> on status,
  \<^verbatim>\<open>ge=0\<close> on latency and on the two optional sizes.\<close>

definition http_methods :: "string list" where
  "http_methods = [''GET'', ''POST'', ''PUT'', ''PATCH'', ''DELETE'', ''OPTIONS'', ''HEAD'']"

definition ge0_opt :: "int option \<Rightarrow> bool" where
  "ge0_opt v = (case v of None \<Rightarrow> True | Some n \<Rightarrow> 0 \<le> n)"

definition Apievent_valid :: "Apievent \<Rightarrow> bool" where
  "Apievent_valid d =
     (ev_method d \<in> set http_methods \<and> 100 \<le> ev_status d \<and> ev_status d \<le> 599
      \<and> 0 \<le> ev_latency_ms d \<and> ge0_opt (ev_request_size d) \<and> ge0_opt (ev_response_size d))"

section \<open>The store's operations\<close>

subsection \<open>bson \<^verbatim>\<open>ObjectId(s)\<close>\<close>

text \<open>\<^verbatim>\<open>ObjectId(s)\<close> on a string accepts exactly 24 hexadecimal digits (either case) and
  raises \<^verbatim>\<open>InvalidId\<close> otherwise; \<^verbatim>\<open>str\<close> of the result is lower case.\<close>

definition hex_digits :: "char list" where
  "hex_digits = ''0123456789abcdefABCDEF''"

definition hex_lower :: "char \<Rightarrow> char" where
  "hex_lower c =
     (if c = CHR ''A'' then CHR ''a'' else if c = CHR ''B'' then CHR ''b''
      else if c = CHR ''C'' then CHR ''c'' else if c = CHR ''D'' then CHR ''d''
      else if c = CHR ''E'' then CHR ''e'' else if c = CHR ''F'' then CHR ''f'' else c)"

definition ObjectId :: "string \<Rightarrow> error + objectid" where
  "ObjectId s =
     (if length s = 24 \<and> list_all (\<lambda>c. c \<in> set hex_digits) s
      then Inr (map hex_lower s) else Inl InvalidId)"

subsection \<open>pymongo queries\<close>

text \<open>\<^verbatim>\<open>find_one(filter)\<close> is the first document, in the collection's order, that
  satisfies the filter, or \<^verbatim>\<open>None\<close>; \<^verbatim>\<open>count_documents(filter)\<close> counts them.\<close>

definition find_one :: "'d list \<Rightarrow> ('d \<Rightarrow> bool) \<Rightarrow> 'd option" where
  "find_one coll flt = List.find flt coll"

definition count_documents :: "'d list \<Rightarrow> ('d \<Rightarrow> bool) \<Rightarrow> nat" where
  "count_documents coll flt = length (filter flt coll)"

text \<open>The aggregation stages the stats handler uses. \<^verbatim>\<open>$group\<close> with \<^verbatim>\<open>_id: None\<close> and
  \<^verbatim>\<open>$avg\<close> yields one group when some document reaches it and none otherwise.
  \<^verbatim>\<open>$group\<close> on a key with \<^verbatim>\<open>$sum: 1\<close> yields one group per key that occurs, with the
  number of documents carrying it. \<^verbatim>\<open>$sort: {_id: 1}\<close> orders groups by key, ascending.
  \<^verbatim>\<open>$dateTrunc\<close> with unit hour (UTC) takes an instant down to the start of its hour.\<close>

definition match_stage :: "('d \<Rightarrow> bool) \<Rightarrow> 'd list \<Rightarrow> 'd list" where
  "match_stage flt docs = filter flt docs"

definition group_avg :: "('d \<Rightarrow> real) \<Rightarrow> 'd list \<Rightarrow> real list" where
  "group_avg f docs =
     (if docs = [] then [] else [sum_list (map f docs) / real (length docs)])"

definition group_count :: "('d \<Rightarrow> 'k) \<Rightarrow> 'd list \<Rightarrow> ('k \<times> nat) list" where
  "group_count keyf docs =
     map (\<lambda>k. (k, length (filter (\<lambda>d. keyf d = k) docs))) (remdups (map keyf docs))"

definition sort_stage :: "(('k::linorder) \<times> nat) list \<Rightarrow> ('k \<times> nat) list" where
  "sort_stage groups = sort_key fst groups"

definition hour_ms :: int where
  "hour_ms = 3600000"

definition dateTrunc_hour :: "datetime \<Rightarrow> datetime" where
  "dateTrunc_hour t = t - t mod hour_ms"

subsection \<open>The storage adapter (\<^verbatim>\<open>database.py\<close>)\<close>

text \<open>Modelled from the spec: \<^verbatim>\<open>database.create_document\<close> and
  \<^verbatim>\<open>database.get_documents\<close> are imported by \<^verbatim>\<open>main.py\<close> but their module is not among
  the sources. The spec gives \<^verbatim>\<open>insert(collection, record) -> id\<close> and
  \<^verbatim>\<open>find(collection, filter, limit) -> sequence of records\<close>, and says of an event's
  \<^verbatim>\<open>created_at\<close> that it is a server-assigned timestamp at insert time which the storage
  layer or the handler must set; the handler does not, so the insert does. The fresh
  identifier \<open>new_id\<close> and the clock reading \<open>now\<close> are inputs of the insert.\<close>

definition create_document_project :: "store \<Rightarrow> Project \<Rightarrow> objectid \<Rightarrow> string \<times> store" where
  "create_document_project s d new_id =
     (new_id, s\<lparr>project := project s @ [Project.extend d (project_doc.fields new_id)]\<rparr>)"

definition create_document_apikey :: "store \<Rightarrow> Apikey \<Rightarrow> objectid \<Rightarrow> string \<times> store" where
  "create_document_apikey s d new_id =
     (new_id, s\<lparr>apikey := apikey s @ [Apikey.extend d (apikey_doc.fields new_id)]\<rparr>)"

definition stored :: "Apievent \<Rightarrow> objectid \<Rightarrow> datetime \<Rightarrow> apievent_doc" where
  "stored d new_id now = Apievent.extend d (apievent_doc.fields new_id now)"

definition create_document_apievent ::
  "store \<Rightarrow> Apievent \<Rightarrow> objectid \<Rightarrow> datetime \<Rightarrow> string \<times> store" where
  "create_document_apievent s d new_id now =
     (new_id, s\<lparr>apievent := apievent s @ [stored d new_id now]\<rparr>)"

definition get_documents :: "'d list \<Rightarrow> ('d \<Rightarrow> bool) \<Rightarrow> nat \<Rightarrow> 'd list" where
  "get_documents coll flt limit = take limit (filter flt coll)"

section \<open>Python helpers\<close>

text \<open>\<^verbatim>\<open>a or b\<close> on optional strings: \<^verbatim>\<open>a\<close> when it is truthy (neither \<^verbatim>\<open>None\<close> nor the
  empty string), otherwise \<^verbatim>\<open>b\<close>, whatever \<^verbatim>\<open>b\<close> is.\<close>

definition truthy :: "string option \<Rightarrow> bool" where
  "truthy a = (case a of None \<Rightarrow> False | Some v \<Rightarrow> v \<noteq> [])"

definition py_or :: "string option \<Rightarrow> string option \<Rightarrow> string option" where
  "py_or a b = (if truthy a then a else b)"

text \<open>\<^verbatim>\<open>s.split(",")[0]\<close> is the text before the first comma; \<^verbatim>\<open>s.strip()\<close> removes
  leading and trailing white space (\<^verbatim>\<open>str.isspace\<close> below code point 256).\<close>

definition split_comma_first :: "string \<Rightarrow> string" where
  "split_comma_first v = takeWhile (\<lambda>c. c \<noteq> CHR '','') v"

definition isspace :: "char \<Rightarrow> bool" where
  "isspace c =
     (c \<in> set [CHR 0x09, CHR 0x0A, CHR 0x0B, CHR 0x0C, CHR 0x0D, CHR 0x1C, CHR 0x1D,
                CHR 0x1E, CHR 0x1F, CHR 0x20, CHR 0x85, CHR 0xA0])"

definition strip :: "string \<Rightarrow> string" where
  "strip v = rev (dropWhile isspace (rev (dropWhile isspace v)))"

section \<open>The handlers (\<^verbatim>\<open>main.py\<close>)\<close>

text \<open>A handler takes the store and returns its response, or the error it raises,
  together with the store it leaves. What the environment supplies is an argument: the
  identifier the store assigns to an inserted document (\<open>new_id\<close>), the clock (\<open>now\<close>)
  and the token drawn by \<^verbatim>\<open>secrets.token_urlsafe(24)\<close> (\<open>key_value\<close>).\<close>

subsection \<open>\<^verbatim>\<open>to_str_id\<close> and the response shapes\<close>

record project_out =
  po_id :: string
  po_name :: string
  po_slug :: string
  po_description :: "string option"

record apikey_out =
  ko_id :: string
  ko_project_id :: string
  ko_name :: string
  ko_key :: string
  ko_active :: bool

record key_created =
  kc_id :: string
  kc_key :: string

record hourly_point =
  hp_t :: datetime
  hp_count :: nat

record stats =
  st_total :: nat
  st_errors :: nat
  st_avg_latency :: real
  st_hourly :: "hourly_point list"

text \<open>\<^verbatim>\<open>to_str_id\<close> copies the document, removes \<^verbatim>\<open>_id\<close> and adds it back as the string
  \<^verbatim>\<open>id\<close>; every other field stays. The hourly point's \<^verbatim>\<open>t\<close> is kept as the instant whose
  \<^verbatim>\<open>isoformat()\<close> the handler returns.\<close>

definition to_str_id_project :: "project_doc \<Rightarrow> project_out" where
  "to_str_id_project d =
     \<lparr>po_id = pr_oid d, po_name = pr_name d, po_slug = pr_slug d,
      po_description = pr_description d\<rparr>"

definition to_str_id_apikey :: "apikey_doc \<Rightarrow> apikey_out" where
  "to_str_id_apikey d =
     \<lparr>ko_id = ak_oid d, ko_project_id = ak_project_id d, ko_name = ak_name d,
      ko_key = ak_key d, ko_active = ak_active d\<rparr>"

subsection \<open>Projects\<close>

definition create_project :: "store \<Rightarrow> CreateProject \<Rightarrow> objectid \<Rightarrow> string \<times> store" where
  "create_project s payload new_id =
     create_document_project s
       \<lparr>pr_name = cp_name payload, pr_slug = cp_slug payload,
        pr_description = cp_description payload\<rparr> new_id"

definition list_projects :: "store \<Rightarrow> project_out list" where
  "list_projects s = map to_str_id_project (get_documents (project s) (\<lambda>d. True) 50)"

subsection \<open>API keys\<close>

text \<open>The body of the \<^verbatim>\<open>try\<close> in \<^verbatim>\<open>create_key\<close>: parse the identifier, look the project
  up, raise 404 when there is none.\<close>

definition create_key_try :: "store \<Rightarrow> CreateApiKey \<Rightarrow> error + project_doc" where
  "create_key_try s payload =
     (case ObjectId (ck_project_id payload) of
        Inl e \<Rightarrow> Inl e
      | Inr oid \<Rightarrow>
          (case find_one (project s) (\<lambda>p. pr_oid p = oid) of
             None \<Rightarrow> Inl (HTTPException 404 ''Project not found'')
           | Some proj \<Rightarrow> Inr proj))"

text \<open>\<^verbatim>\<open>except Exception\<close> encloses the whole body, so whatever the body raises leaves
  the handler as 400.\<close>

definition create_key ::
  "store \<Rightarrow> CreateApiKey \<Rightarrow> string \<Rightarrow> objectid \<Rightarrow> (error + key_created) \<times> store" where
  "create_key s payload key_value new_id =
     (case create_key_try s payload of
        Inl e \<Rightarrow> (Inl (HTTPException 400 ''Invalid project id''), s)
      | Inr proj \<Rightarrow>
          (let doc = \<lparr>ak_project_id = ck_project_id payload, ak_name = ck_name payload,
                      ak_key = key_value, ak_active = True\<rparr>;
               (kid, s') = create_document_apikey s doc new_id
           in (Inr \<lparr>kc_id = kid, kc_key = key_value\<rparr>, s')))"

definition list_keys :: "store \<Rightarrow> string \<Rightarrow> apikey_out list" where
  "list_keys s project_id =
     map to_str_id_apikey (get_documents (apikey s) (\<lambda>d. ak_project_id d = project_id) 100)"

subsection \<open>Ingestion\<close>

definition resolve_api_key_id :: "store \<Rightarrow> string option \<Rightarrow> project_doc \<Rightarrow> string option" where
  "resolve_api_key_id s api_key proj =
     (if truthy api_key then
        (case find_one (apikey s)
                (\<lambda>d. ak_key d = the api_key \<and> ak_project_id d = pr_oid proj \<and> ak_active d) of
           None \<Rightarrow> None
         | Some key_doc \<Rightarrow> Some (ak_oid key_doc))
      else None)"

definition resolve_ip :: "string option \<Rightarrow> string option \<Rightarrow> string option" where
  "resolve_ip ip x_forwarded_for =
     py_or ip (if truthy x_forwarded_for
               then Some (strip (split_comma_first (the x_forwarded_for))) else None)"

text \<open>The document the handler builds between the project lookup and the insert
  (\<^verbatim>\<open>api_key_id\<close>, \<^verbatim>\<open>ip\<close>, \<^verbatim>\<open>ua\<close> and the \<^verbatim>\<open>Apievent(...)\<close> call).\<close>

definition ingest_doc ::
  "store \<Rightarrow> IngestEvent \<Rightarrow> string option \<Rightarrow> string option \<Rightarrow> project_doc \<Rightarrow> Apievent" where
  "ingest_doc s event x_forwarded_for user_agent proj =
     (let api_key_id = resolve_api_key_id s (ie_api_key event) proj;
          ip = resolve_ip (ie_ip event) x_forwarded_for;
          ua = py_or (ie_user_agent event) user_agent
      in \<lparr>ev_project_id = pr_oid proj, ev_api_key_id = api_key_id,
          ev_method = ie_method event, ev_path = ie_path event,
          ev_status = ie_status event, ev_latency_ms = ie_latency_ms event,
          ev_ip = ip, ev_user_agent = ua,
          ev_request_size = ie_request_size event,
          ev_response_size = ie_response_size event,
          ev_error_message = ie_error_message event\<rparr>)"

definition ingest ::
  "store \<Rightarrow> IngestEvent \<Rightarrow> string option \<Rightarrow> string option \<Rightarrow> objectid \<Rightarrow> datetime
     \<Rightarrow> (error + string) \<times> store" where
  "ingest s event x_forwarded_for user_agent new_id now =
     (case find_one (project s) (\<lambda>p. pr_slug p = ie_project_slug event) of
        None \<Rightarrow> (Inl (HTTPException 404 ''Project not found''), s)
      | Some proj \<Rightarrow>
          (let doc = ingest_doc s event x_forwarded_for user_agent proj
           in if Apievent_valid doc
              then (case create_document_apievent s doc new_id now of
                      (eid, s') \<Rightarrow> (Inr eid, s'))
              else (Inl ValidationError, s)))"

subsection \<open>Statistics\<close>

definition day_ms :: int where
  "day_ms = 24 * hour_ms"

definition hourly_query :: "store \<Rightarrow> string \<Rightarrow> datetime \<Rightarrow> (datetime \<times> nat) list" where
  "hourly_query s project_id now =
     (let since = now - day_ms
      in sort_stage
           (group_count (\<lambda>e. dateTrunc_hour (created_at e))
              (match_stage (\<lambda>e. ev_project_id e = project_id \<and> since \<le> created_at e)
                 (apievent s))))"

definition project_stats :: "store \<Rightarrow> string \<Rightarrow> datetime \<Rightarrow> error + stats" where
  "project_stats s project_id now =
     (case ObjectId project_id of
        Inl e \<Rightarrow> Inl (HTTPException 400 ''Invalid project id'')
      | Inr u \<Rightarrow>
          (let total = count_documents (apievent s) (\<lambda>e. ev_project_id e = project_id);
               errors = count_documents (apievent s)
                          (\<lambda>e. ev_project_id e = project_id \<and> 400 \<le> ev_status e);
               agg = group_avg ev_latency_ms
                       (match_stage (\<lambda>e. ev_project_id e = project_id) (apievent s));
               avg_latency = (case agg of [] \<Rightarrow> 0 | a # rest \<Rightarrow> a);
               hourly = hourly_query s project_id now;
               hourly_series = map (\<lambda>h. \<lparr>hp_t = fst h, hp_count = snd h\<rparr>) hourly
           in Inr \<lparr>st_total = total, st_errors = errors, st_avg_latency = avg_latency,
                   st_hourly = hourly_series\<rparr>))"

subsection \<open>The service as a sequence of requests\<close>

text \<open>The routes that write, each with what the environment supplied when it was
  served; a history is served in order, starting from empty collections.\<close>

datatype request =
    PostProject CreateProject objectid
  | PostKey CreateApiKey string objectid
  | PostIngest IngestEvent "string option" "string option" objectid datetime

definition serve :: "store \<Rightarrow> request \<Rightarrow> store" where
  "serve s rq =
     (case rq of
        PostProject payload new_id \<Rightarrow> snd (create_project s payload new_id)
      | PostKey payload key_value new_id \<Rightarrow> snd (create_key s payload key_value new_id)
      | PostIngest event x_forwarded_for user_agent new_id now \<Rightarrow>
          snd (ingest s event x_forwarded_for user_agent new_id now))"

definition served_by :: "datetime \<Rightarrow> request \<Rightarrow> bool" where
  "served_by now rq =
     (case rq of PostIngest event x_forwarded_for user_agent new_id t \<Rightarrow> t \<le> now
               | _ \<Rightarrow> True)"

definition empty_store :: store where
  "empty_store = \<lparr>project = [], apikey = [], apievent = []\<rparr>"

definition serve_all :: "store \<Rightarrow> request list \<Rightarrow> store" where
  "serve_all s history = foldl serve s history"

section \<open>Sample data\<close>

text \<open>Two projects, one key issued to the second, and a request against the first.\<close>

definition pid0 :: objectid where
  "pid0 = ''65a1b2c3d4e5f60718293a4b''"

definition pid1 :: objectid where
  "pid1 = ''65a1b2c3d4e5f60718293a4c''"

definition pid_absent :: objectid where
  "pid_absent = ''ffffffffffffffffffffffff''"

definition kid0 :: objectid where
  "kid0 = ''65a1b2c3d4e5f60718293a5a''"

definition kid1 :: objectid where
  "kid1 = ''65a1b2c3d4e5f60718293a5b''"

definition eid0 :: objectid where
  "eid0 = ''65a1b2c3d4e5f60718293a6a''"

definition tok0 :: string where
  "tok0 = ''Zq3vX0b1mK9tR7uY2cW5eH8jL4nP6sA_''"

definition tok1 :: string where
  "tok1 = ''p-8LrT2dVw0yNf6GhJ3kQx9ZbC5mS1aE''"

definition now0 :: datetime where
  "now0 = 1700000000000"

definition shop :: project_doc where
  "shop = \<lparr>pr_name = ''Shop'', pr_slug = ''shop'', pr_description = None, pr_oid = pid0\<rparr>"

definition blog :: project_doc where
  "blog = \<lparr>pr_name = ''Blog'', pr_slug = ''blog'', pr_description = None, pr_oid = pid1\<rparr>"

definition blog_key :: apikey_doc where
  "blog_key = \<lparr>ak_project_id = pid1, ak_name = ''ci'', ak_key = tok0, ak_active = True,
                ak_oid = kid0\<rparr>"

definition store0 :: store where
  "store0 = \<lparr>project = [shop, blog], apikey = [blog_key], apievent = []\<rparr>"

definition cart_hit :: IngestEvent where
  "cart_hit = \<lparr>ie_project_slug = ''shop'', ie_api_key = None, ie_method = ''GET'',
                ie_path = ''/cart'', ie_status = 200, ie_latency_ms = 25 / 2, ie_ip = None,
                ie_user_agent = None, ie_request_size = None, ie_response_size = Some 512,
                ie_error_message = None\<rparr>"

definition cart_doc :: "int \<Rightarrow> real \<Rightarrow> objectid \<Rightarrow> datetime \<Rightarrow> apievent_doc" where
  "cart_doc status latency oid t =
     \<lparr>ev_project_id = pid0, ev_api_key_id = None, ev_method = ''GET'', ev_path = ''/cart'',
      ev_status = status, ev_latency_ms = latency, ev_ip = None, ev_user_agent = None,
      ev_request_size = None, ev_response_size = None, ev_error_message = None,
      ev_oid = oid, created_at = t\<rparr>"

text \<open>Three events of the first project: 25 hours, 2 hours and 1 second before \<open>now0\<close>.\<close>

definition store3 :: store where
  "store3 = store0\<lparr>apievent :=
     [cart_doc 200 10 ''65a1b2c3d4e5f60718293a61'' (now0 - 90000000),
      cart_doc 404 20 ''65a1b2c3d4e5f60718293a62'' (now0 - 7200000),
      cart_doc 500 30 ''65a1b2c3d4e5f60718293a63'' (now0 - 1000)]\<rparr>"

text \<open>A key request for the first project, one for an identifier no project has, and
  the store after the first request is served with token \<open>tok1\<close>.\<close>

definition web_key_request :: CreateApiKey where
  "web_key_request = \<lparr>ck_project_id = pid0, ck_name = ''web''\<rparr>"

definition absent_key_request :: CreateApiKey where
  "absent_key_request = \<lparr>ck_project_id = pid_absent, ck_name = ''web''\<rparr>"

definition web_key :: apikey_doc where
  "web_key = \<lparr>ak_project_id = pid0, ak_name = ''web'', ak_key = tok1, ak_active = True,
               ak_oid = kid1\<rparr>"

definition store0_keyed :: store where
  "store0_keyed = store0\<lparr>apikey := [blog_key, web_key]\<rparr>"

text \<open>Requests against the first project: one carrying the second project's key, one
  with an explicit address, one with an empty \<^verbatim>\<open>ip\<close>, one with an empty \<^verbatim>\<open>user_agent\<close>;
  and the store after \<open>cart_hit\<close> is ingested at \<open>now0\<close>.\<close>

definition keyed_hit :: IngestEvent where
  "keyed_hit = cart_hit\<lparr>ie_api_key := Some tok0\<rparr>"

definition addressed_hit :: IngestEvent where
  "addressed_hit = cart_hit\<lparr>ie_ip := Some ''192.0.2.7''\<rparr>"

definition blank_ip_hit :: IngestEvent where
  "blank_ip_hit = cart_hit\<lparr>ie_ip := Some ''''\<rparr>"

definition blank_ua_hit :: IngestEvent where
  "blank_ua_hit = cart_hit\<lparr>ie_user_agent := Some ''''\<rparr>"

definition cart_hit_doc :: apievent_doc where
  "cart_hit_doc =
     \<lparr>ev_project_id = pid0, ev_api_key_id = None, ev_method = ''GET'', ev_path = ''/cart'',
      ev_status = 200, ev_latency_ms = 25 / 2, ev_ip = None, ev_user_agent = None,
      ev_request_size = None, ev_response_size = Some 512, ev_error_message = None,
      ev_oid = eid0, created_at = now0\<rparr>"

definition store0_hit :: store where
  "store0_hit = store0\<lparr>apievent := [cart_hit_doc]\<rparr>"

section \<open>Facts about the store's operations\<close>

lemma find_one_None_iff: "find_one coll flt = None \<longleftrightarrow> (\<forall>d\<in>set coll. \<not> flt d)"
  by (auto simp: find_one_def find_None_iff)

lemma find_one_Some_D: "find_one coll flt = Some d \<Longrightarrow> d \<in> set coll \<and> flt d"
  by (auto simp: find_one_def find_Some_iff)

lemma stored_sel:
  "ev_project_id (stored d i t) = ev_project_id d"
  "ev_api_key_id (stored d i t) = ev_api_key_id d"
  "ev_status (stored d i t) = ev_status d"
  "ev_latency_ms (stored d i t) = ev_latency_ms d"
  "ev_ip (stored d i t) = ev_ip d"
  "ev_user_agent (stored d i t) = ev_user_agent d"
  "ev_oid (stored d i t) = i"
  "created_at (stored d i t) = t"
  by (simp_all add: stored_def Apievent.extend_def apievent_doc.fields_def)

lemma ingest_resolved:
  assumes "find_one (project s) (\<lambda>p. pr_slug p = ie_project_slug event) = Some proj"
  shows "ingest s event xff ua new_id now =
           (if Apievent_valid (ingest_doc s event xff ua proj)
            then (Inr new_id,
                  s\<lparr>apievent := apievent s @ [stored (ingest_doc s event xff ua proj) new_id now]\<rparr>)
            else (Inl ValidationError, s))"
  using assms by (simp add: ingest_def create_document_apievent_def)

lemma ingest_success:
  assumes "ingest s event xff ua new_id now = (Inr eid, s')"
  shows "\<exists>proj. find_one (project s) (\<lambda>p. pr_slug p = ie_project_slug event) = Some proj
           \<and> Apievent_valid (ingest_doc s event xff ua proj) \<and> eid = new_id
           \<and> s' = s\<lparr>apievent := apievent s @ [stored (ingest_doc s event xff ua proj) new_id now]\<rparr>"
proof (cases "find_one (project s) (\<lambda>p. pr_slug p = ie_project_slug event)")
  case None
  then show ?thesis using assms by (simp add: ingest_def)
next
  case (Some proj)
  show ?thesis using assms unfolding ingest_resolved [OF Some]
    by (auto simp: Some split: if_splits)
qed

lemma ingest_doc_sel:
  "ev_project_id (ingest_doc s event xff ua proj) = pr_oid proj"
  "ev_api_key_id (ingest_doc s event xff ua proj) = resolve_api_key_id s (ie_api_key event) proj"
  "ev_ip (ingest_doc s event xff ua proj) = resolve_ip (ie_ip event) xff"
  "ev_user_agent (ingest_doc s event xff ua proj) = py_or (ie_user_agent event) ua"
  "ev_method (ingest_doc s event xff ua proj) = ie_method event"
  "ev_status (ingest_doc s event xff ua proj) = ie_status event"
  "ev_latency_ms (ingest_doc s event xff ua proj) = ie_latency_ms event"
  "ev_request_size (ingest_doc s event xff ua proj) = ie_request_size event"
  "ev_response_size (ingest_doc s event xff ua proj) = ie_response_size event"
  by (simp_all add: ingest_doc_def)

lemma Apievent_valid_ingest_doc:
  "Apievent_valid (ingest_doc s event xff ua proj) \<longleftrightarrow>
     ie_method event \<in> set http_methods \<and> 100 \<le> ie_status event \<and> ie_status event \<le> 599
     \<and> 0 \<le> ie_latency_ms event \<and> ge0_opt (ie_request_size event)
     \<and> ge0_opt (ie_response_size event)"
  by (simp add: Apievent_valid_def ingest_doc_sel)

lemma truthy_iff: "truthy a \<longleftrightarrow> a \<noteq> None \<and> a \<noteq> Some []"
  by (simp add: truthy_def split: option.splits)

lemma resolve_api_key_id_None:
  assumes "\<forall>k\<in>set (apikey s).
             \<not> (Some (ak_key k) = api_key \<and> ak_project_id k = pr_oid proj \<and> ak_active k)"
  shows "resolve_api_key_id s api_key proj = None"
proof (cases "truthy api_key")
  case False
  then show ?thesis by (simp add: resolve_api_key_id_def)
next
  case True
  then obtain v where v: "api_key = Some v" by (cases api_key) (auto simp: truthy_def)
  have "find_one (apikey s)
          (\<lambda>d. ak_key d = the api_key \<and> ak_project_id d = pr_oid proj \<and> ak_active d) = None"
    using assms by (auto simp: find_one_None_iff v)
  then show ?thesis by (simp add: resolve_api_key_id_def)
qed

lemma resolve_api_key_id_Some:
  assumes "resolve_api_key_id s api_key proj = Some kid"
  shows "\<exists>k\<in>set (apikey s). Some (ak_key k) = api_key \<and> ak_project_id k = pr_oid proj
            \<and> ak_active k \<and> ak_oid k = kid"
proof -
  from assms have t: "truthy api_key"
    by (auto simp: resolve_api_key_id_def split: if_splits)
  then obtain v where v: "api_key = Some v" by (cases api_key) (auto simp: truthy_def)
  from assms t obtain k where
    k: "find_one (apikey s)
          (\<lambda>d. ak_key d = the api_key \<and> ak_project_id d = pr_oid proj \<and> ak_active d) = Some k"
    and kid: "ak_oid k = kid"
    by (auto simp: resolve_api_key_id_def split: option.splits)
  from find_one_Some_D [OF k] kid v show ?thesis by auto
qed

lemma ingest_doc_empty_ip:
  "ingest_doc s (event\<lparr>ie_ip := Some []\<rparr>) xff ua proj =
   ingest_doc s (event\<lparr>ie_ip := None\<rparr>) xff ua proj"
  by (simp add: ingest_doc_def resolve_ip_def py_or_def truthy_def)

lemma ingest_doc_empty_user_agent:
  "ingest_doc s (event\<lparr>ie_user_agent := Some []\<rparr>) xff ua proj =
   ingest_doc s (event\<lparr>ie_user_agent := None\<rparr>) xff ua proj"
  by (simp add: ingest_doc_def resolve_ip_def py_or_def truthy_def)

lemmas sample_defs =
  pid0_def pid1_def pid_absent_def kid0_def kid1_def eid0_def tok0_def tok1_def now0_def
  shop_def blog_def blog_key_def store0_def cart_hit_def cart_doc_def store3_def
  web_key_request_def absent_key_request_def web_key_def store0_keyed_def
  keyed_hit_def addressed_hit_def blank_ip_hit_def blank_ua_hit_def cart_hit_doc_def
  store0_hit_def

lemmas ObjectId_defs = ObjectId_def hex_digits_def hex_lower_def

section \<open>Ingestion against an unknown slug\<close>

text \<open>C4. When no project carries the submitted slug, \<open>ingest\<close> raises 404
  \<^verbatim>\<open>Project not found\<close> and leaves the store as it was: no event is written.\<close>

theorem ingest_unknown_slug:
  assumes "\<forall>p\<in>set (project s). pr_slug p \<noteq> ie_project_slug event"
  shows "ingest s event x_forwarded_for user_agent new_id now =
           (Inl (HTTPException 404 ''Project not found''), s)"
proof -
  have "find_one (project s) (\<lambda>p. pr_slug p = ie_project_slug event) = None"
    using assms by (simp add: find_one_None_iff)
  then show ?thesis by (simp add: ingest_def)
qed

theorem ingest_unknown_slug_witness:
  "map pr_slug (project store0) = [''shop'', ''blog'']
   \<and> ingest store0 (cart_hit\<lparr>ie_project_slug := ''wiki''\<rparr>) None None eid0 now0 =
       (Inl (HTTPException 404 ''Project not found''), store0)"
proof -
  have h: "\<forall>p\<in>set (project store0). pr_slug p \<noteq> ie_project_slug (cart_hit\<lparr>ie_project_slug := ''wiki''\<rparr>)"
    by (simp add: store0_def shop_def blog_def)
  have l: "map pr_slug (project store0) = [''shop'', ''blog'']"
    by (simp add: store0_def shop_def blog_def)
  show ?thesis
    using l ingest_unknown_slug [OF h, of None None eid0 now0] by simp
qed

section \<open>Statistics of a project without events\<close>

text \<open>C6. For a well-formed \<open>project_id\<close> that no stored event carries, whether or not a
  project with that identifier exists, \<open>project_stats\<close> succeeds with total 0,
  errors 0, average latency 0 and an empty hourly series.\<close>

theorem stats_no_events:
  assumes "ObjectId project_id = Inr u"
      and "\<forall>e\<in>set (apievent s). ev_project_id e \<noteq> project_id"
  shows "project_stats s project_id now =
           Inr \<lparr>st_total = 0, st_errors = 0, st_avg_latency = 0, st_hourly = []\<rparr>"
proof -
  have m: "filter (\<lambda>e. ev_project_id e = project_id) (apievent s) = []"
    using assms(2) by (simp add: filter_empty_conv)
  have e: "filter (\<lambda>e. ev_project_id e = project_id \<and> 400 \<le> ev_status e) (apievent s) = []"
    using assms(2) by (simp add: filter_empty_conv)
  have h: "hourly_query s project_id now = []"
    using assms(2)
    by (simp add: hourly_query_def match_stage_def group_count_def sort_stage_def
        filter_empty_conv)
  show ?thesis
    using assms(1)
    by (simp add: project_stats_def count_documents_def match_stage_def group_avg_def m e h)
qed

theorem stats_no_events_witness:
  "ObjectId pid_absent = Inr pid_absent
   \<and> map pr_oid (project store3) = [pid0, pid1]
   \<and> map ev_project_id (apievent store3) = [pid0, pid0, pid0]
   \<and> pid_absent \<noteq> pid0 \<and> pid_absent \<noteq> pid1
   \<and> project_stats store3 pid_absent now0 =
       Inr \<lparr>st_total = 0, st_errors = 0, st_avg_latency = 0, st_hourly = []\<rparr>"
proof -
  have a: "ObjectId pid_absent = Inr pid_absent"
    by (simp add: ObjectId_defs pid_absent_def)
  have b: "\<forall>e\<in>set (apievent store3). ev_project_id e \<noteq> pid_absent"
    by (simp add: sample_defs)
  have c: "map pr_oid (project store3) = [pid0, pid1]"
    by (simp add: store3_def store0_def shop_def blog_def)
  have d: "map ev_project_id (apievent store3) = [pid0, pid0, pid0]"
    by (simp add: store3_def cart_doc_def)
  have e: "pid_absent \<noteq> pid0 \<and> pid_absent \<noteq> pid1"
    by (simp add: pid_absent_def pid0_def pid1_def)
  show ?thesis
    using a c d e stats_no_events [OF a b, of now0] by simp
qed

section \<open>Issuing and listing keys\<close>

lemma create_key_unknown_project:
  assumes "ObjectId (ck_project_id payload) = Inr oid"
      and "\<forall>p\<in>set (project s). pr_oid p \<noteq> oid"
  shows "create_key_try s payload = Inl (HTTPException 404 ''Project not found'')"
    and "create_key s payload key_value new_id =
           (Inl (HTTPException 400 ''Invalid project id''), s)"
proof -
  have "find_one (project s) (\<lambda>p. pr_oid p = oid) = None"
    using assms(2) by (simp add: find_one_None_iff)
  then show "create_key_try s payload = Inl (HTTPException 404 ''Project not found'')"
    using assms(1) by (simp add: create_key_try_def)
  then show "create_key s payload key_value new_id =
           (Inl (HTTPException 400 ''Invalid project id''), s)"
    by (simp add: create_key_def)
qed

lemma create_key_success:
  assumes "create_key s payload key_value new_id = (Inr r, s')"
  shows "r = \<lparr>kc_id = new_id, kc_key = key_value\<rparr>
         \<and> s' = s\<lparr>apikey := apikey s @
                [\<lparr>ak_project_id = ck_project_id payload, ak_name = ck_name payload,
                  ak_key = key_value, ak_active = True, ak_oid = new_id\<rparr>]\<rparr>"
  using assms
  by (auto simp: create_key_def create_document_apikey_def Apikey.extend_def
      apikey_doc.fields_def split: sum.splits)

lemma create_key_web: "create_key store0 web_key_request tok1 kid1 =
    (Inr \<lparr>kc_id = kid1, kc_key = tok1\<rparr>, store0_keyed)"
  by (simp add: create_key_def create_key_try_def ObjectId_defs find_one_def
      create_document_apikey_def Apikey.extend_def apikey_doc.fields_def sample_defs)

lemma list_keys_web: "list_keys store0_keyed pid0 = [to_str_id_apikey web_key]"
  by (simp add: list_keys_def get_documents_def sample_defs)

text \<open>C2. A key request whose \<open>project_id\<close> is well formed but names no project: the body
  of the \<^verbatim>\<open>try\<close> raises 404 \<^verbatim>\<open>Project not found\<close>, the enclosing \<^verbatim>\<open>except Exception\<close>
  catches it, and the handler answers 400 \<^verbatim>\<open>Invalid project id\<close>. No key is written.\<close>

theorem create_key_absent_project_is_400:
  "ObjectId (ck_project_id absent_key_request) = Inr pid_absent
   \<and> map pr_oid (project store0) = [pid0, pid1]
   \<and> create_key_try store0 absent_key_request = Inl (HTTPException 404 ''Project not found'')
   \<and> create_key store0 absent_key_request tok1 kid1 =
       (Inl (HTTPException 400 ''Invalid project id''), store0)"
  by (simp add: create_key_def create_key_try_def ObjectId_defs find_one_def sample_defs)

text \<open>C1, as stated, fails: the key issued to the first project comes back, in plain
  text, from \<open>list_keys\<close> for that project.\<close>

theorem list_keys_plaintext_counterexample:
  "fst (create_key store0 web_key_request tok1 kid1) = Inr \<lparr>kc_id = kid1, kc_key = tok1\<rparr>
   \<and> map ko_key (list_keys (snd (create_key store0 web_key_request tok1 kid1)) pid0) = [tok1]"
  by (simp add: create_key_web list_keys_web to_str_id_apikey_def web_key_def)

text \<open>C1, amended. The issuing call returns the plaintext key, and \<open>list_keys\<close> does not
  redact: the record of the key just issued is in the listing for its \<open>project_id\<close>
  with the same plaintext key, provided fewer than 100 keys of that project precede it
  (the listing's limit).\<close>

theorem list_keys_returns_plaintext:
  assumes "create_key s payload key_value new_id = (Inr r, s')"
      and "length (filter (\<lambda>d. ak_project_id d = ck_project_id payload) (apikey s)) < 100"
  shows "kc_key r = key_value \<and>
         (\<exists>k\<in>set (list_keys s' (ck_project_id payload)).
             ko_id k = kc_id r \<and> ko_key k = key_value)"
proof -
  let ?d = "\<lparr>ak_project_id = ck_project_id payload, ak_name = ck_name payload,
             ak_key = key_value, ak_active = True, ak_oid = new_id\<rparr>"
  from create_key_success [OF assms(1)]
  have r: "r = \<lparr>kc_id = new_id, kc_key = key_value\<rparr>" and s': "apikey s' = apikey s @ [?d]"
    by simp_all
  have "get_documents (apikey s') (\<lambda>d. ak_project_id d = ck_project_id payload) 100
        = filter (\<lambda>d. ak_project_id d = ck_project_id payload) (apikey s) @ [?d]"
    using assms(2) by (simp add: get_documents_def s')
  then have "to_str_id_apikey ?d \<in> set (list_keys s' (ck_project_id payload))"
    by (simp add: list_keys_def)
  then show ?thesis
    by (auto simp: r to_str_id_apikey_def intro!: bexI [where x = "to_str_id_apikey ?d"])
qed

theorem list_keys_returns_plaintext_witness:
  "create_key store0 web_key_request tok1 kid1 = (Inr \<lparr>kc_id = kid1, kc_key = tok1\<rparr>, store0_keyed)
   \<and> length (filter (\<lambda>d. ak_project_id d = pid0) (apikey store0)) = 0
   \<and> (\<exists>k\<in>set (list_keys store0_keyed pid0). ko_id k = kid1 \<and> ko_key k = tok1)"
proof -
  have n: "length (filter (\<lambda>d. ak_project_id d = pid0) (apikey store0)) = 0"
    by (simp add: sample_defs)
  have p: "ck_project_id web_key_request = pid0"
    by (simp add: web_key_request_def)
  have m: "length (filter (\<lambda>d. ak_project_id d = ck_project_id web_key_request) (apikey store0)) < 100"
    using n p by simp
  show ?thesis
    using n p create_key_web list_keys_returns_plaintext [OF create_key_web m] by simp
qed

section \<open>What ingestion persists\<close>

lemma ingest_shop:
  assumes "ie_project_slug event = ''shop''"
      and "Apievent_valid (ingest_doc store0 event xff ua shop)"
  shows "ingest store0 event xff ua new_id now =
           (Inr new_id,
            store0\<lparr>apievent := [stored (ingest_doc store0 event xff ua shop) new_id now]\<rparr>)"
proof -
  have "find_one (project store0) (\<lambda>p. pr_slug p = ie_project_slug event) = Some shop"
    using assms(1) by (simp add: find_one_def store0_def shop_def)
  from ingest_resolved [OF this] assms(2) show ?thesis
    by (simp add: store0_def)
qed

lemma ingest_shop_ip:
  assumes "ie_project_slug event = ''shop''"
      and "Apievent_valid (ingest_doc store0 event xff ua shop)"
  shows "map ev_ip (apievent (snd (ingest store0 event xff ua new_id now))) =
           [resolve_ip (ie_ip event) xff]"
    and "map ev_user_agent (apievent (snd (ingest store0 event xff ua new_id now))) =
           [py_or (ie_user_agent event) ua]"
    and "fst (ingest store0 event xff ua new_id now) = Inr new_id"
  by (simp_all add: ingest_shop [OF assms] stored_sel ingest_doc_sel)

lemma shop_hits_valid:
  "Apievent_valid (ingest_doc store0 cart_hit xff ua shop)"
  "Apievent_valid (ingest_doc store0 keyed_hit xff ua shop)"
  "Apievent_valid (ingest_doc store0 addressed_hit xff ua shop)"
  "Apievent_valid (ingest_doc store0 blank_ip_hit xff ua shop)"
  "Apievent_valid (ingest_doc store0 blank_ua_hit xff ua shop)"
  by (simp_all add: Apievent_valid_ingest_doc http_methods_def ge0_opt_def cart_hit_def
      keyed_hit_def addressed_hit_def blank_ip_hit_def blank_ua_hit_def)

lemma shop_hits_slug:
  "ie_project_slug cart_hit = ''shop''"
  "ie_project_slug keyed_hit = ''shop''"
  "ie_project_slug addressed_hit = ''shop''"
  "ie_project_slug blank_ip_hit = ''shop''"
  "ie_project_slug blank_ua_hit = ''shop''"
  by (simp_all add: cart_hit_def keyed_hit_def addressed_hit_def blank_ip_hit_def
      blank_ua_hit_def)

lemma shop_hits_persisted:
  "map ev_ip (apievent (snd (ingest store0 cart_hit xff ua new_id now))) = [resolve_ip None xff]"
  "map ev_ip (apievent (snd (ingest store0 blank_ip_hit xff ua new_id now))) =
     [resolve_ip (Some []) xff]"
  "map ev_user_agent (apievent (snd (ingest store0 blank_ua_hit xff ua new_id now))) =
     [py_or (Some []) ua]"
proof -
  have f: "ie_ip cart_hit = None" "ie_ip blank_ip_hit = Some []"
      "ie_user_agent blank_ua_hit = Some []"
    by (simp_all add: cart_hit_def blank_ip_hit_def blank_ua_hit_def)
  show "map ev_ip (apievent (snd (ingest store0 cart_hit xff ua new_id now))) =
          [resolve_ip None xff]"
    using ingest_shop_ip(1) [OF shop_hits_slug(1) shop_hits_valid(1)] f(1) by simp
  show "map ev_ip (apievent (snd (ingest store0 blank_ip_hit xff ua new_id now))) =
          [resolve_ip (Some []) xff]"
    using ingest_shop_ip(1) [OF shop_hits_slug(4) shop_hits_valid(4)] f(2) by simp
  show "map ev_user_agent (apievent (snd (ingest store0 blank_ua_hit xff ua new_id now))) =
          [py_or (Some []) ua]"
    using ingest_shop_ip(2) [OF shop_hits_slug(5) shop_hits_valid(5)] f(3) by simp
qed

lemmas header_defs = resolve_ip_def py_or_def truthy_def strip_def split_comma_first_def
  isspace_def

text \<open>C5. When the slug resolves to a project and the event passes the \<^verbatim>\<open>Apievent\<close>
  field constraints, the event is persisted whatever \<^verbatim>\<open>api_key\<close> says. If no stored key
  is active, belongs to the resolved project and equals the submitted value, the
  persisted \<^verbatim>\<open>api_key_id\<close> is null; and whenever it is not null it is the id of such a
  key.\<close>

theorem ingest_key_association:
  assumes proj: "find_one (project s) (\<lambda>p. pr_slug p = ie_project_slug event) = Some proj"
      and valid: "ie_method event \<in> set http_methods" "100 \<le> ie_status event"
                 "ie_status event \<le> 599" "0 \<le> ie_latency_ms event"
                 "ge0_opt (ie_request_size event)" "ge0_opt (ie_response_size event)"
  shows "\<exists>e. ingest s event x_forwarded_for user_agent new_id now =
                (Inr new_id, s\<lparr>apievent := apievent s @ [e]\<rparr>)
            \<and> ev_project_id e = pr_oid proj
            \<and> ((\<forall>k\<in>set (apikey s). \<not> (Some (ak_key k) = ie_api_key event
                       \<and> ak_project_id k = pr_oid proj \<and> ak_active k))
                 \<longrightarrow> ev_api_key_id e = None)
            \<and> (\<forall>kid. ev_api_key_id e = Some kid \<longrightarrow>
                  (\<exists>k\<in>set (apikey s). Some (ak_key k) = ie_api_key event
                       \<and> ak_project_id k = pr_oid proj \<and> ak_active k \<and> ak_oid k = kid))"
proof -
  let ?d = "ingest_doc s event x_forwarded_for user_agent proj"
  let ?e = "stored ?d new_id now"
  have v: "Apievent_valid ?d"
    using valid by (simp add: Apievent_valid_ingest_doc)
  have run: "ingest s event x_forwarded_for user_agent new_id now =
               (Inr new_id, s\<lparr>apievent := apievent s @ [?e]\<rparr>)"
    by (simp add: ingest_resolved [OF proj] v)
  have p: "ev_project_id ?e = pr_oid proj"
    by (simp add: stored_sel ingest_doc_sel)
  have k: "ev_api_key_id ?e = resolve_api_key_id s (ie_api_key event) proj"
    by (simp add: stored_sel ingest_doc_sel)
  have none: "(\<forall>k\<in>set (apikey s). \<not> (Some (ak_key k) = ie_api_key event
                       \<and> ak_project_id k = pr_oid proj \<and> ak_active k))
                 \<longrightarrow> ev_api_key_id ?e = None"
    unfolding k using resolve_api_key_id_None by blast
  have some: "\<forall>kid. ev_api_key_id ?e = Some kid \<longrightarrow>
                  (\<exists>k\<in>set (apikey s). Some (ak_key k) = ie_api_key event
                       \<and> ak_project_id k = pr_oid proj \<and> ak_active k \<and> ak_oid k = kid)"
    unfolding k using resolve_api_key_id_Some by blast
  show ?thesis
    using run p none some by blast
qed

text \<open>The second project's key, sent with an event for the first project.\<close>

theorem ingest_key_association_witness:
  "find_one (project store0) (\<lambda>p. pr_slug p = ie_project_slug keyed_hit) = Some shop
   \<and> ie_api_key keyed_hit = Some tok0
   \<and> map (\<lambda>k. (ak_key k, ak_project_id k, ak_active k)) (apikey store0) = [(tok0, pid1, True)]
   \<and> pr_oid shop = pid0 \<and> pid0 \<noteq> pid1
   \<and> fst (ingest store0 keyed_hit None None eid0 now0) = Inr eid0
   \<and> map ev_api_key_id (apievent (snd (ingest store0 keyed_hit None None eid0 now0))) = [None]
   \<and> map ev_project_id (apievent (snd (ingest store0 keyed_hit None None eid0 now0))) = [pid0]"
proof -
  have pr: "find_one (project store0) (\<lambda>p. pr_slug p = ie_project_slug keyed_hit) = Some shop"
    by (simp add: find_one_def sample_defs)
  have v: "ie_method keyed_hit \<in> set http_methods" "100 \<le> ie_status keyed_hit"
          "ie_status keyed_hit \<le> 599" "0 \<le> ie_latency_ms keyed_hit"
          "ge0_opt (ie_request_size keyed_hit)" "ge0_opt (ie_response_size keyed_hit)"
    by (simp_all add: keyed_hit_def cart_hit_def http_methods_def ge0_opt_def)
  have nokey: "\<forall>k\<in>set (apikey store0). \<not> (Some (ak_key k) = ie_api_key keyed_hit
                       \<and> ak_project_id k = pr_oid shop \<and> ak_active k)"
    by (simp add: sample_defs)
  have facts: "ie_api_key keyed_hit = Some tok0"
      "map (\<lambda>k. (ak_key k, ak_project_id k, ak_active k)) (apikey store0) = [(tok0, pid1, True)]"
      "pr_oid shop = pid0" "pid0 \<noteq> pid1" "apievent store0 = []"
    by (simp_all add: sample_defs)
  from ingest_key_association [OF pr v, of None None eid0 now0] nokey
  obtain e where
    run: "ingest store0 keyed_hit None None eid0 now0
            = (Inr eid0, store0\<lparr>apievent := apievent store0 @ [e]\<rparr>)"
    and e: "ev_project_id e = pr_oid shop" "ev_api_key_id e = None"
    by blast
  show ?thesis
    using pr facts e by (simp add: run)
qed

text \<open>C9, as stated, fails twice. An explicit \<^verbatim>\<open>ip\<close> that is the empty string is
  supplied and yet the header's address is persisted; and the header's first entry is
  persisted without its surrounding white space, not as it stands before the comma.\<close>

theorem ingest_ip_counterexample:
  "ie_ip blank_ip_hit = Some ''''
   \<and> map ev_ip (apievent (snd (ingest store0 blank_ip_hit (Some ''10.0.0.1'') None eid0 now0)))
       = [Some ''10.0.0.1'']
   \<and> split_comma_first ''10.0.0.1 , 10.0.0.2'' = ''10.0.0.1 ''
   \<and> map ev_ip (apievent (snd (ingest store0 cart_hit (Some ''10.0.0.1 , 10.0.0.2'') None
         eid0 now0)))
       = [Some ''10.0.0.1'']"
proof -
  have "ie_ip blank_ip_hit = Some ''''"
    by (simp add: blank_ip_hit_def)
  moreover have "split_comma_first ''10.0.0.1 , 10.0.0.2'' = ''10.0.0.1 ''"
    by (simp add: split_comma_first_def)
  ultimately show ?thesis
    by (simp add: shop_hits_persisted header_defs)
qed

text \<open>C9, amended. The persisted \<^verbatim>\<open>ip\<close> is the explicit field when it is supplied and
  not empty; otherwise, when the forwarded-for header is supplied and not empty, its first
  comma-separated entry with surrounding white space removed; otherwise null. So a
  non-empty explicit field wins over the header, and omitting both gives null.\<close>

theorem ingest_ip_resolution:
  assumes "ingest s event x_forwarded_for user_agent new_id now = (Inr eid, s')"
  shows "\<exists>e. apievent s' = apievent s @ [e] \<and>
           ev_ip e =
             (if ie_ip event \<noteq> None \<and> ie_ip event \<noteq> Some [] then ie_ip event
              else if x_forwarded_for \<noteq> None \<and> x_forwarded_for \<noteq> Some []
                   then Some (strip (split_comma_first (the x_forwarded_for)))
                   else None)"
proof -
  from ingest_success [OF assms] obtain proj where
    s': "s' = s\<lparr>apievent := apievent s @
            [stored (ingest_doc s event x_forwarded_for user_agent proj) new_id now]\<rparr>"
    by blast
  show ?thesis
    by (rule exI [where x = "stored (ingest_doc s event x_forwarded_for user_agent proj) new_id now"])
       (simp add: s' stored_sel ingest_doc_sel resolve_ip_def py_or_def truthy_iff)
qed

text \<open>An explicit address beside a header, and neither of them.\<close>

theorem ingest_ip_resolution_witness:
  "fst (ingest store0 addressed_hit (Some ''10.0.0.1'') None eid0 now0) = Inr eid0
   \<and> ie_ip addressed_hit = Some ''192.0.2.7''
   \<and> map ev_ip (apievent (snd (ingest store0 addressed_hit (Some ''10.0.0.1'') None eid0 now0)))
       = [Some ''192.0.2.7'']
   \<and> fst (ingest store0 cart_hit None None eid0 now0) = Inr eid0
   \<and> ie_ip cart_hit = None
   \<and> map ev_ip (apievent (snd (ingest store0 cart_hit None None eid0 now0))) = [None]"
proof -
  let ?a = "ingest store0 addressed_hit (Some ''10.0.0.1'') None eid0 now0"
  let ?c = "ingest store0 cart_hit None None eid0 now0"
  have ra: "?a = (Inr eid0, snd ?a)" and rc: "?c = (Inr eid0, snd ?c)"
    by (simp_all add: ingest_shop shop_hits_valid shop_hits_slug)
  have s0: "apievent store0 = []"
    by (simp add: store0_def)
  have ia: "ie_ip addressed_hit = Some ''192.0.2.7''" and ic: "ie_ip cart_hit = None"
    by (simp_all add: addressed_hit_def cart_hit_def)
  from ingest_ip_resolution [OF ra] obtain e where
    "apievent (snd ?a) = apievent store0 @ [e]" "ev_ip e = Some ''192.0.2.7''"
    by (auto simp: ia)
  then have A: "map ev_ip (apievent (snd ?a)) = [Some ''192.0.2.7'']"
    by (simp add: s0)
  from ingest_ip_resolution [OF rc] obtain e' where
    "apievent (snd ?c) = apievent store0 @ [e']" "ev_ip e' = None"
    by (auto simp: ic)
  then have C: "map ev_ip (apievent (snd ?c)) = [None]"
    by (simp add: s0)
  show ?thesis
    using A C ia ic ra rc by (metis fst_conv)
qed

text \<open>C10, as stated, fails: with an empty \<^verbatim>\<open>ip\<close> in the payload and a forwarded-for
  header that starts with a comma, the persisted \<^verbatim>\<open>ip\<close> is the empty string; with an
  empty \<^verbatim>\<open>user_agent\<close> in the payload and an empty user-agent header, the persisted
  \<^verbatim>\<open>user_agent\<close> is the empty string.\<close>

theorem ingest_empty_field_counterexample:
  "ie_ip blank_ip_hit = Some ''''
   \<and> map ev_ip (apievent (snd (ingest store0 blank_ip_hit (Some '',10.0.0.1'') None eid0 now0)))
       = [Some '''']
   \<and> ie_user_agent blank_ua_hit = Some ''''
   \<and> map ev_user_agent (apievent (snd (ingest store0 blank_ua_hit None (Some '''') eid0 now0)))
       = [Some '''']"
proof -
  have "ie_ip blank_ip_hit = Some ''''" and "ie_user_agent blank_ua_hit = Some ''''"
    by (simp_all add: blank_ip_hit_def blank_ua_hit_def)
  then show ?thesis
    by (simp add: shop_hits_persisted header_defs)
qed

text \<open>C10, amended. An \<^verbatim>\<open>ip\<close> or \<^verbatim>\<open>user_agent\<close> that is present but empty is treated as
  absent: the call does exactly what it does with the field omitted, and what is
  persisted is what the fallback gives (the stripped first entry of a non-empty
  forwarded-for header, or the user-agent header, else null). Nothing is said of that
  value being non-empty: the fallback can itself give the empty string.\<close>

theorem ingest_empty_field_is_absent:
  "ingest s (event\<lparr>ie_ip := Some []\<rparr>) x_forwarded_for user_agent new_id now =
     ingest s (event\<lparr>ie_ip := None\<rparr>) x_forwarded_for user_agent new_id now
   \<and> ingest s (event\<lparr>ie_user_agent := Some []\<rparr>) x_forwarded_for user_agent new_id now =
     ingest s (event\<lparr>ie_user_agent := None\<rparr>) x_forwarded_for user_agent new_id now
   \<and> (\<forall>eid s'. ingest s event x_forwarded_for user_agent new_id now = (Inr eid, s') \<longrightarrow>
        (\<exists>e. apievent s' = apievent s @ [e]
            \<and> (ie_ip event = Some [] \<longrightarrow>
                 ev_ip e = (if x_forwarded_for \<noteq> None \<and> x_forwarded_for \<noteq> Some []
                            then Some (strip (split_comma_first (the x_forwarded_for)))
                            else None))
            \<and> (ie_user_agent event = Some [] \<longrightarrow> ev_user_agent e = user_agent)))"
proof -
  have A: "ingest s (event\<lparr>ie_ip := Some []\<rparr>) x_forwarded_for user_agent new_id now =
     ingest s (event\<lparr>ie_ip := None\<rparr>) x_forwarded_for user_agent new_id now"
    by (simp add: ingest_def ingest_doc_empty_ip split: option.splits)
  have B: "ingest s (event\<lparr>ie_user_agent := Some []\<rparr>) x_forwarded_for user_agent new_id now =
     ingest s (event\<lparr>ie_user_agent := None\<rparr>) x_forwarded_for user_agent new_id now"
    by (simp add: ingest_def ingest_doc_empty_user_agent split: option.splits)
  have C: "\<exists>e. apievent s' = apievent s @ [e]
            \<and> (ie_ip event = Some [] \<longrightarrow>
                 ev_ip e = (if x_forwarded_for \<noteq> None \<and> x_forwarded_for \<noteq> Some []
                            then Some (strip (split_comma_first (the x_forwarded_for)))
                            else None))
            \<and> (ie_user_agent event = Some [] \<longrightarrow> ev_user_agent e = user_agent)"
    if run: "ingest s event x_forwarded_for user_agent new_id now = (Inr eid, s')" for eid s'
  proof -
    from ingest_success [OF run] obtain proj where
      s': "s' = s\<lparr>apievent := apievent s @
              [stored (ingest_doc s event x_forwarded_for user_agent proj) new_id now]\<rparr>"
      by blast
    show ?thesis
      by (rule exI [where x = "stored (ingest_doc s event x_forwarded_for user_agent proj) new_id now"])
         (simp add: s' stored_sel ingest_doc_sel resolve_ip_def py_or_def truthy_iff)
  qed
  show ?thesis using A B C by blast
qed

text \<open>An empty \<^verbatim>\<open>ip\<close> beside a forwarded-for header, and an empty \<^verbatim>\<open>user_agent\<close> beside
  a user-agent header.\<close>

theorem ingest_empty_field_is_absent_witness:
  "ie_ip blank_ip_hit = Some ''''
   \<and> fst (ingest store0 blank_ip_hit (Some ''10.0.0.1, 10.0.0.2'') None eid0 now0) = Inr eid0
   \<and> map ev_ip (apievent (snd (ingest store0 blank_ip_hit (Some ''10.0.0.1, 10.0.0.2'') None
         eid0 now0))) = [Some ''10.0.0.1'']
   \<and> ie_user_agent blank_ua_hit = Some ''''
   \<and> fst (ingest store0 blank_ua_hit None (Some ''curl/8.4.0'') eid0 now0) = Inr eid0
   \<and> map ev_user_agent (apievent (snd (ingest store0 blank_ua_hit None (Some ''curl/8.4.0'')
         eid0 now0))) = [Some ''curl/8.4.0'']"
proof -
  let ?a = "ingest store0 blank_ip_hit (Some ''10.0.0.1, 10.0.0.2'') None eid0 now0"
  let ?c = "ingest store0 blank_ua_hit None (Some ''curl/8.4.0'') eid0 now0"
  have ra: "?a = (Inr eid0, snd ?a)" and rc: "?c = (Inr eid0, snd ?c)"
    by (simp_all add: ingest_shop shop_hits_valid shop_hits_slug)
  have s0: "apievent store0 = []"
    by (simp add: store0_def)
  have ia: "ie_ip blank_ip_hit = Some []" and ic: "ie_user_agent blank_ua_hit = Some []"
    by (simp_all add: blank_ip_hit_def blank_ua_hit_def)
  have h: "strip (split_comma_first ''10.0.0.1, 10.0.0.2'') = ''10.0.0.1''"
    by (simp add: header_defs)
  from ingest_empty_field_is_absent [of store0 blank_ip_hit "Some ''10.0.0.1, 10.0.0.2''" None eid0 now0]
    ra ia
  obtain e where "apievent (snd ?a) = apievent store0 @ [e]"
    "ev_ip e = Some (strip (split_comma_first ''10.0.0.1, 10.0.0.2''))"
    by fastforce
  then have A: "map ev_ip (apievent (snd ?a)) = [Some ''10.0.0.1'']"
    by (simp add: s0 h)
  from ingest_empty_field_is_absent [of store0 blank_ua_hit None "Some ''curl/8.4.0''" eid0 now0]
    rc ic
  obtain e' where "apievent (snd ?c) = apievent store0 @ [e']"
    "ev_user_agent e' = Some ''curl/8.4.0''"
    by fastforce
  then have C: "map ev_user_agent (apievent (snd ?c)) = [Some ''curl/8.4.0'']"
    by (simp add: s0)
  show ?thesis
    using A C ia ic ra rc by (metis fst_conv)
qed

section \<open>Statistics\<close>

subsection \<open>Hour buckets and the aggregation stages\<close>

lemma trunc_bucket:
  fixes t h m :: int
  assumes "0 < m" and "h mod m = 0"
  shows "t - t mod m = h \<longleftrightarrow> h \<le> t \<and> t < h + m"
proof
  assume "t - t mod m = h"
  then show "h \<le> t \<and> t < h + m"
    using assms(1) pos_mod_bound [of m t] pos_mod_sign [of m t] by linarith
next
  assume a: "h \<le> t \<and> t < h + m"
  obtain q where q: "h = m * q"
    using assms(2) by (auto simp: mod_eq_0_iff_dvd)
  have "t div m = q"
    using a q assms(1) by (intro int_div_pos_eq [where r = "t - h"]) auto
  then show "t - t mod m = h"
    using q by (simp add: minus_mod_eq_mult_div)
qed

lemma dateTrunc_hour_aligned: "dateTrunc_hour t mod hour_ms = 0"
  by (simp add: dateTrunc_hour_def hour_ms_def minus_mod_eq_mult_div)

lemma dateTrunc_hour_bucket:
  "h mod hour_ms = 0 \<Longrightarrow> dateTrunc_hour t = h \<longleftrightarrow> h \<le> t \<and> t < h + hour_ms"
  unfolding dateTrunc_hour_def by (rule trunc_bucket) (simp_all add: hour_ms_def)

lemma group_count_keys: "map fst (group_count keyf docs) = remdups (map keyf docs)"
  by (simp add: group_count_def comp_def)

lemma group_count_entry:
  "(k, c) \<in> set (group_count keyf docs) \<longleftrightarrow>
     k \<in> keyf ` set docs \<and> c = length (filter (\<lambda>d. keyf d = k) docs)"
  by (auto simp: group_count_def)

lemma sort_stage_set: "set (sort_stage groups) = set groups"
  by (simp add: sort_stage_def)

lemma sort_stage_strict:
  assumes "distinct (map fst groups)"
  shows "sorted_wrt (<) (map fst (sort_stage groups))"
proof -
  have "distinct groups" and "inj_on fst (set groups)"
    using assms by (simp_all add: distinct_map)
  then have "distinct (map fst (sort_key fst groups))"
    by (simp add: distinct_map)
  then show ?thesis
    by (simp add: sort_stage_def strict_sorted_iff)
qed

lemma hourly_query_sorted: "sorted_wrt (<) (map fst (hourly_query s project_id now))"
  by (simp add: hourly_query_def Let_def sort_stage_strict group_count_keys)

lemma length_filter_filter:
  "length (filter Q (filter P xs)) = length (filter (\<lambda>x. P x \<and> Q x) xs)"
  by (simp add: conj_commute)

lemma hourly_query_entry:
  "(h, c) \<in> set (hourly_query s project_id now) \<longleftrightarrow>
     (\<exists>e\<in>set (apievent s). ev_project_id e = project_id \<and> now - day_ms \<le> created_at e
         \<and> dateTrunc_hour (created_at e) = h)
     \<and> c = length (filter (\<lambda>e. ev_project_id e = project_id \<and> now - day_ms \<le> created_at e
                              \<and> dateTrunc_hour (created_at e) = h) (apievent s))"
  unfolding hourly_query_def Let_def sort_stage_set group_count_entry match_stage_def
    length_filter_filter
  by (auto simp: conj_assoc)

lemma project_stats_hourly:
  assumes "project_stats s project_id now = Inr r"
  shows "st_hourly r =
           map (\<lambda>h. \<lparr>hp_t = fst h, hp_count = snd h\<rparr>) (hourly_query s project_id now)"
  using assms by (auto simp: project_stats_def Let_def split: sum.splits)

lemma event_in_hourly_query:
  assumes "e \<in> set (apievent s)" and "ev_project_id e = project_id"
      and "later - day_ms \<le> created_at e"
  shows "\<exists>c. 0 < c \<and>
           (dateTrunc_hour (created_at e), c) \<in> set (hourly_query s project_id later)"
proof -
  let ?flt = "\<lambda>x. ev_project_id x = project_id \<and> later - day_ms \<le> created_at x
                 \<and> dateTrunc_hour (created_at x) = dateTrunc_hour (created_at e)"
  have "e \<in> set (filter ?flt (apievent s))"
    using assms by simp
  then have pos: "0 < length (filter ?flt (apievent s))"
    by (rule length_pos_if_in_set)
  have "(dateTrunc_hour (created_at e), length (filter ?flt (apievent s)))
          \<in> set (hourly_query s project_id later)"
    unfolding hourly_query_entry
    by (intro conjI bexI [of _ e] refl) (use assms in simp_all)
  with pos show ?thesis
    by (intro exI conjI)
qed

lemma ingest_keeps_past:
  assumes "\<forall>e\<in>set (apievent s). created_at e \<le> now"
      and "ingest s event xff ua new_id now = (r, s')"
      and "now \<le> later"
  shows "\<forall>e\<in>set (apievent s'). created_at e \<le> later"
proof (cases "find_one (project s) (\<lambda>p. pr_slug p = ie_project_slug event)")
  case None
  then have "s' = s" using assms(2) by (simp add: ingest_def)
  then show ?thesis using assms(1,3) by fastforce
next
  case (Some proj)
  show ?thesis
    using assms unfolding ingest_resolved [OF Some]
    by (fastforce simp: stored_sel split: if_splits)
qed

lemma serve_keeps_past:
  assumes "\<forall>e\<in>set (apievent s). created_at e \<le> now" and "served_by now rq"
  shows "\<forall>e\<in>set (apievent (serve s rq)). created_at e \<le> now"
proof (cases rq)
  case (PostProject payload new_id)
  then show ?thesis
    using assms(1) by (simp add: serve_def create_project_def create_document_project_def)
next
  case (PostKey payload key_value new_id)
  then show ?thesis
    using assms(1)
    by (simp add: serve_def create_key_def create_document_apikey_def split: sum.splits)
next
  case (PostIngest event xff ua new_id t)
  then have t: "t \<le> now"
    using assms(2) by (simp add: served_by_def)
  show ?thesis
  proof (cases "find_one (project s) (\<lambda>p. pr_slug p = ie_project_slug event)")
    case None
    then show ?thesis
      using assms(1) PostIngest by (simp add: serve_def ingest_def)
  next
    case (Some proj)
    show ?thesis
      using assms(1) t PostIngest
      by (simp add: serve_def ingest_resolved [OF Some] stored_sel)
  qed
qed

lemma serve_all_keeps_past:
  assumes "\<forall>e\<in>set (apievent s). created_at e \<le> now"
      and "\<forall>rq\<in>set history. served_by now rq"
  shows "\<forall>e\<in>set (apievent (serve_all s history)). created_at e \<le> now"
  using assms unfolding serve_all_def
proof (induction history arbitrary: s)
  case Nil
  then show ?case by simp
next
  case (Cons rq history)
  from Cons.prems have "\<forall>e\<in>set (apievent (serve s rq)). created_at e \<le> now"
    by (intro serve_keeps_past) simp_all
  with Cons.prems(2) have "\<forall>e\<in>set (apievent (foldl serve (serve s rq) history)). created_at e \<le> now"
    by (intro Cons.IH) simp_all
  then show ?case by simp
qed

lemma history_store_past:
  assumes "\<forall>rq\<in>set history. served_by now rq"
  shows "\<forall>e\<in>set (apievent (serve_all empty_store history)). created_at e \<le> now"
  by (rule serve_all_keeps_past [OF _ assms]) (simp add: empty_store_def)

lemma stats_store3:
  "project_stats store3 pid0 now0 =
     Inr \<lparr>st_total = 3, st_errors = 2, st_avg_latency = 20,
          st_hourly = [\<lparr>hp_t = 1699992000000, hp_count = 1\<rparr>,
                       \<lparr>hp_t = 1699999200000, hp_count = 1\<rparr>]\<rparr>"
  by (simp add: project_stats_def ObjectId_defs count_documents_def match_stage_def
      group_avg_def hourly_query_def group_count_def sort_stage_def dateTrunc_hour_def
      hour_ms_def day_ms_def sample_defs)

lemma ObjectId_pid0: "ObjectId pid0 = Inr pid0"
  by (simp add: ObjectId_defs pid0_def)

subsection \<open>Counts and mean\<close>

text \<open>C7. For a well-formed \<open>project_id\<close> that at least one stored event carries,
  \<open>project_stats\<close> succeeds; \<open>total\<close> is the number of events with that \<open>project_id\<close>,
  \<open>errors\<close> the number of those with status at least 400, and \<open>avg_latency\<close> the sum of
  their latencies divided by their number. (Latencies are reals here: the rounding of
  floating-point addition and division is not part of the statement.)\<close>

theorem stats_counts_and_mean:
  assumes "ObjectId project_id = Inr u"
      and "filter (\<lambda>e. ev_project_id e = project_id) (apievent s) \<noteq> []"
  shows "\<exists>r. project_stats s project_id now = Inr r
           \<and> st_total r = length (filter (\<lambda>e. ev_project_id e = project_id) (apievent s))
           \<and> st_errors r =
               length (filter (\<lambda>e. 400 \<le> ev_status e)
                         (filter (\<lambda>e. ev_project_id e = project_id) (apievent s)))
           \<and> st_avg_latency r =
               sum_list (map ev_latency_ms
                           (filter (\<lambda>e. ev_project_id e = project_id) (apievent s)))
               / real (length (filter (\<lambda>e. ev_project_id e = project_id) (apievent s)))"
  using assms
  by (simp add: project_stats_def count_documents_def match_stage_def group_avg_def
      length_filter_filter)

text \<open>The spec's example: statuses 200, 404, 500 with latencies 10, 20, 30.\<close>

theorem stats_counts_and_mean_witness:
  "ObjectId pid0 = Inr pid0
   \<and> map (\<lambda>e. (ev_project_id e, ev_status e, ev_latency_ms e)) (apievent store3) =
       [(pid0, 200, 10), (pid0, 404, 20), (pid0, 500, 30)]
   \<and> (\<exists>r. project_stats store3 pid0 now0 = Inr r
          \<and> st_total r = 3 \<and> st_errors r = 2 \<and> st_avg_latency r = 20)"
proof -
  have ev: "map (\<lambda>e. (ev_project_id e, ev_status e, ev_latency_ms e)) (apievent store3) =
       [(pid0, 200, 10), (pid0, 404, 20), (pid0, 500, 30)]"
    by (simp add: store3_def cart_doc_def)
  have ms: "filter (\<lambda>e. ev_project_id e = pid0) (apievent store3) = apievent store3"
    by (simp add: store3_def cart_doc_def)
  have ne: "filter (\<lambda>e. ev_project_id e = pid0) (apievent store3) \<noteq> []"
    by (simp add: ms) (simp add: store3_def)
  have n: "length (apievent store3) = 3"
    and er: "length (filter (\<lambda>e. 400 \<le> ev_status e) (apievent store3)) = 2"
    and su: "sum_list (map ev_latency_ms (apievent store3)) = 60"
    by (simp_all add: store3_def cart_doc_def)
  from stats_counts_and_mean [OF ObjectId_pid0 ne, of now0]
  obtain r where "project_stats store3 pid0 now0 = Inr r"
    "st_total r = 3" "st_errors r = 2" "st_avg_latency r = 20"
    by (auto simp: ms n er su)
  then show ?thesis
    using ObjectId_pid0 ev by blast
qed

subsection \<open>The hourly series\<close>

text \<open>C8. Take a stats call at \<open>now\<close> on a store none of whose events is stamped later
  than \<open>now\<close>; every store the handlers build from empty collections by requests served
  no later than \<open>now\<close> is one (\<open>history_store_past\<close>). The hourly series is strictly ascending in bucket start. Every returned
  bucket starts on an hour boundary and has a positive count: the number of the
  project's events created within the 24 hours up to \<open>now\<close> that fall in the hour
  starting there. Every such event falls in a returned bucket. So the series covers
  exactly the window's events, by containing hour, without empty buckets.\<close>

theorem hourly_series_window:
  assumes ok: "project_stats s project_id now = Inr r"
      and past: "\<forall>e\<in>set (apievent s). created_at e \<le> now"
  shows "sorted_wrt (<) (map hp_t (st_hourly r))
       \<and> (\<forall>p\<in>set (st_hourly r). hp_t p mod hour_ms = 0 \<and> 0 < hp_count p
            \<and> hp_count p = length (filter (\<lambda>e. ev_project_id e = project_id
                   \<and> now - day_ms \<le> created_at e \<and> created_at e \<le> now
                   \<and> hp_t p \<le> created_at e \<and> created_at e < hp_t p + hour_ms) (apievent s)))
       \<and> (\<forall>e\<in>set (apievent s). ev_project_id e = project_id
               \<and> now - day_ms \<le> created_at e \<and> created_at e \<le> now
            \<longrightarrow> (\<exists>p\<in>set (st_hourly r).
                    hp_t p \<le> created_at e \<and> created_at e < hp_t p + hour_ms))"
proof -
  let ?hq = "hourly_query s project_id now"
  let ?mk = "\<lambda>h::datetime \<times> nat. \<lparr>hp_t = fst h, hp_count = snd h\<rparr>"
  have hs: "st_hourly r = map ?mk ?hq"
    by (rule project_stats_hourly [OF ok])
  have "map hp_t (st_hourly r) = map fst ?hq"
    by (simp add: hs comp_def)
  then have A: "sorted_wrt (<) (map hp_t (st_hourly r))"
    by (simp add: hourly_query_sorted)
  have B: "hp_t p mod hour_ms = 0 \<and> 0 < hp_count p
            \<and> hp_count p = length (filter (\<lambda>e. ev_project_id e = project_id
                   \<and> now - day_ms \<le> created_at e \<and> created_at e \<le> now
                   \<and> hp_t p \<le> created_at e \<and> created_at e < hp_t p + hour_ms) (apievent s))"
    if p: "p \<in> set (st_hourly r)" for p
  proof -
    from p hs have mem: "(hp_t p, hp_count p) \<in> set ?hq" by auto
    then have ex: "\<exists>e\<in>set (apievent s). ev_project_id e = project_id
                      \<and> now - day_ms \<le> created_at e
                      \<and> dateTrunc_hour (created_at e) = hp_t p"
      and c: "hp_count p = length (filter (\<lambda>e. ev_project_id e = project_id
                 \<and> now - day_ms \<le> created_at e
                 \<and> dateTrunc_hour (created_at e) = hp_t p) (apievent s))"
      unfolding hourly_query_entry by simp_all
    from ex obtain e where e: "e \<in> set (apievent s)" "ev_project_id e = project_id"
        "now - day_ms \<le> created_at e" "dateTrunc_hour (created_at e) = hp_t p"
      by blast
    have al: "hp_t p mod hour_ms = 0"
      using e(4) dateTrunc_hour_aligned [of "created_at e"] by simp
    have eq: "filter (\<lambda>e. ev_project_id e = project_id \<and> now - day_ms \<le> created_at e
                 \<and> dateTrunc_hour (created_at e) = hp_t p) (apievent s)
            = filter (\<lambda>e. ev_project_id e = project_id
                   \<and> now - day_ms \<le> created_at e \<and> created_at e \<le> now
                   \<and> hp_t p \<le> created_at e \<and> created_at e < hp_t p + hour_ms) (apievent s)"
      using past by (intro filter_cong refl) (auto simp: dateTrunc_hour_bucket [OF al])
    have "e \<in> set (filter (\<lambda>e. ev_project_id e = project_id \<and> now - day_ms \<le> created_at e
                 \<and> dateTrunc_hour (created_at e) = hp_t p) (apievent s))"
      using e by simp
    then have "0 < hp_count p"
      unfolding c by (metis length_pos_if_in_set)
    then show ?thesis using al c eq by simp
  qed
  have C: "\<exists>p\<in>set (st_hourly r). hp_t p \<le> created_at e \<and> created_at e < hp_t p + hour_ms"
    if e: "e \<in> set (apievent s)" "ev_project_id e = project_id"
          "now - day_ms \<le> created_at e" for e
  proof -
    let ?h = "dateTrunc_hour (created_at e)"
    let ?c = "length (filter (\<lambda>x. ev_project_id x = project_id \<and> now - day_ms \<le> created_at x
                 \<and> dateTrunc_hour (created_at x) = ?h) (apievent s))"
    have "(?h, ?c) \<in> set ?hq"
      unfolding hourly_query_entry using e by blast
    then have "?mk (?h, ?c) \<in> set (st_hourly r)"
      unfolding hs set_map by (rule imageI)
    moreover have "?h \<le> created_at e \<and> created_at e < ?h + hour_ms"
      using dateTrunc_hour_bucket [OF dateTrunc_hour_aligned, of "created_at e" "created_at e"]
      by simp
    ultimately show ?thesis by force
  qed
  show ?thesis using A B C by blast
qed

text \<open>Three events, 25 hours, 2 hours and 1 second old: the first is outside the window,
  the hour between the other two has no bucket.\<close>

theorem hourly_series_window_witness:
  "project_stats store3 pid0 now0 =
     Inr \<lparr>st_total = 3, st_errors = 2, st_avg_latency = 20,
          st_hourly = [\<lparr>hp_t = 1699992000000, hp_count = 1\<rparr>,
                       \<lparr>hp_t = 1699999200000, hp_count = 1\<rparr>]\<rparr>
   \<and> now0 = 1700000000000
   \<and> map created_at (apievent store3) = [1699910000000, 1699992800000, 1699999999000]
   \<and> sorted_wrt (<) [1699992000000, 1699999200000 :: int]"
proof -
  have past: "\<forall>e\<in>set (apievent store3). created_at e \<le> now0"
    by (simp add: store3_def cart_doc_def now0_def)
  have t: "map created_at (apievent store3) = [1699910000000, 1699992800000, 1699999999000]"
    and n: "now0 = 1700000000000"
    by (simp_all add: store3_def cart_doc_def now0_def)
  note w = hourly_series_window [OF stats_store3 past]
  from w have "sorted_wrt (<) (map hp_t
      (st_hourly \<lparr>st_total = 3, st_errors = 2, st_avg_latency = 20,
          st_hourly = [\<lparr>hp_t = 1699992000000, hp_count = 1\<rparr>,
                       \<lparr>hp_t = 1699999200000, hp_count = 1\<rparr>]\<rparr>))"
    by (rule conjunct1)
  then have "sorted_wrt (<) [1699992000000, 1699999200000 :: int]"
    by simp
  with stats_store3 t n show ?thesis
    by blast
qed

subsection \<open>The timestamp of an ingested event\<close>

text \<open>C3. An accepted ingestion appends exactly one event, stored under the returned id
  with \<open>created_at\<close> equal to the clock reading of the insert; and the hourly query of
  any stats call for the event's project made while that instant is within its 24-hour
  window counts the event in the bucket of its hour.\<close>

theorem ingest_sets_created_at:
  assumes "ingest s event x_forwarded_for user_agent new_id now = (Inr eid, s')"
  shows "\<exists>e. apievent s' = apievent s @ [e] \<and> ev_oid e = eid \<and> created_at e = now
             \<and> (\<forall>later. later - day_ms \<le> now \<longrightarrow>
                   (\<exists>c. 0 < c \<and>
                      (dateTrunc_hour now, c) \<in> set (hourly_query s' (ev_project_id e) later)))"
proof -
  from ingest_success [OF assms] obtain proj where
    eid: "eid = new_id" and
    s': "s' = s\<lparr>apievent := apievent s @
            [stored (ingest_doc s event x_forwarded_for user_agent proj) new_id now]\<rparr>"
    by blast
  let ?e = "stored (ingest_doc s event x_forwarded_for user_agent proj) new_id now"
  have app: "apievent s' = apievent s @ [?e]"
    by (simp add: s')
  have c1: "ev_oid ?e = eid" and c2: "created_at ?e = now"
    by (simp_all add: eid stored_sel)
  have mem: "?e \<in> set (apievent s')"
    by (simp add: app)
  show ?thesis
  proof (rule exI [where x = ?e], intro conjI allI impI)
    show "apievent s' = apievent s @ [?e]" by (rule app)
    show "ev_oid ?e = eid" by (rule c1)
    show "created_at ?e = now" by (rule c2)
  next
    fix later
    assume "later - day_ms \<le> now"
    then have "later - day_ms \<le> created_at ?e"
      by (simp only: c2)
    from event_in_hourly_query [OF mem refl this]
    show "\<exists>c. 0 < c \<and> (dateTrunc_hour now, c) \<in> set (hourly_query s' (ev_project_id ?e) later)"
      by (simp only: c2)
  qed
qed

text \<open>\<open>cart_hit\<close> ingested at \<open>now0\<close>, seen by a stats call five seconds later.\<close>

theorem ingest_sets_created_at_witness:
  "ingest store0 cart_hit None None eid0 now0 = (Inr eid0, store0_hit)
   \<and> map created_at (apievent store0_hit) = [now0]
   \<and> map ev_oid (apievent store0_hit) = [eid0]
   \<and> hourly_query store0_hit pid0 (now0 + 5000) = [(dateTrunc_hour now0, 1)]"
proof -
  have run: "ingest store0 cart_hit None None eid0 now0 = (Inr eid0, store0_hit)"
    by (simp add: ingest_shop [OF shop_hits_slug(1) shop_hits_valid(1)])
       (simp add: ingest_doc_def stored_def Apievent.extend_def apievent_doc.fields_def
          resolve_api_key_id_def resolve_ip_def py_or_def truthy_def sample_defs)
  have s0: "apievent store0 = []"
    by (simp add: store0_def)
  from ingest_sets_created_at [OF run] obtain e where
    "apievent store0_hit = apievent store0 @ [e]" "ev_oid e = eid0" "created_at e = now0"
    by blast
  then have A: "map created_at (apievent store0_hit) = [now0]"
    and B: "map ev_oid (apievent store0_hit) = [eid0]"
    by (simp_all add: s0)
  have C: "hourly_query store0_hit pid0 (now0 + 5000) = [(dateTrunc_hour now0, 1)]"
    by (simp add: hourly_query_def match_stage_def group_count_def sort_stage_def
        dateTrunc_hour_def hour_ms_def day_ms_def sample_defs)
  show ?thesis
    using run A B C by simp
qed

end
